theory Spec2Isabelle
  imports Complex_Main
begin

section \<open>The AQI advisory application: a shallow embedding of app.py\<close>

text \<open>
  The source is one Python script. Its domain logic is two functions,
  \<^verbatim>\<open>get_aqi_category\<close> (a chain of threshold comparisons) and
  \<^verbatim>\<open>get_recommendations\<close> (a lookup in a dictionary literal); around them are
  \<^verbatim>\<open>load_model\<close>, which unpickles two artifacts, and the prediction block of
  \<^verbatim>\<open>main\<close>, which scores one form submission and reports the outcome.

  Numbers: the predicted AQI and the form values are Python floats. They are modelled as
  \<^typ>\<open>real\<close>. Every finite float is a real number and the comparisons of the source are
  exact, so the model agrees with the code on every finite float; NaN and the infinities
  are outside the model.

  Strings: a Python \<^verbatim>\<open>str\<close> is modelled as a \<^typ>\<open>string\<close> holding its UTF-8
  encoding, so an ASCII character is one \<^typ>\<open>char\<close> and a character beyond ASCII is
  the bytes of its code point. The encoding is injective, so two Python strings are equal
  exactly when their models are.
\<close>

subsection \<open>Strings beyond ASCII\<close>

definition utf8 :: "nat \<Rightarrow> string" where
  "utf8 n =
     (if n < 0x80 then [char_of n]
      else if n < 0x800 then
        [char_of (0xC0 + n div 0x40), char_of (0x80 + n mod 0x40)]
      else if n < 0x10000 then
        [char_of (0xE0 + n div 0x1000), char_of (0x80 + n div 0x40 mod 0x40),
         char_of (0x80 + n mod 0x40)]
      else
        [char_of (0xF0 + n div 0x40000), char_of (0x80 + n div 0x1000 mod 0x40),
         char_of (0x80 + n div 0x40 mod 0x40), char_of (0x80 + n mod 0x40)])"

subsection \<open>get_aqi_category (lines 62 to 74)\<close>

text \<open>
  The function returns a triple: the category label, the CSS class used as severity tag,
  and a one-line description. Each description starts with an emoji, written here by its
  code point.
\<close>

definition get_aqi_category :: "real \<Rightarrow> string \<times> string \<times> string" where
  "get_aqi_category aqi_value =
     (if aqi_value \<le> 50 then
        (''Good'', ''good'', utf8 0x1F60A @ '' Air quality is satisfactory'')
      else if aqi_value \<le> 100 then
        (''Moderate'', ''moderate'', utf8 0x1F610 @ '' Air quality is acceptable'')
      else if aqi_value \<le> 150 then
        (''Unhealthy for Sensitive Groups'', ''unhealthy-sensitive'',
         utf8 0x1F637 @ '' Sensitive groups may be affected'')
      else if aqi_value \<le> 200 then
        (''Unhealthy'', ''unhealthy'', utf8 0x1F912 @ '' Everyone may be affected'')
      else if aqi_value \<le> 300 then
        (''Very Unhealthy'', ''very-unhealthy'', utf8 0x1F6A8 @ '' Health alert'')
      else
        (''Hazardous'', ''hazardous'', utf8 0x1F480 @ '' Health warning''))"

subsection \<open>get_recommendations (lines 77 to 110)\<close>

text \<open>
  The dictionary literal of the source, in its order. Its keys are pairwise distinct, so
  looking a key up in the association list is looking it up in the dictionary.
\<close>

definition recommendations :: "(string \<times> string list) list" where
  "recommendations =
     [(''Good'',
        [utf8 0x2705 @ '' Perfect for outdoor activities and exercise'',
         utf8 0x2705 @ '' No restrictions needed'',
         utf8 0x2705 @ '' Great day for children to play outside'']),
      (''Moderate'',
        [utf8 0x26A0 @ utf8 0xFE0F @ '' Generally acceptable for most people'',
         utf8 0x26A0 @ utf8 0xFE0F @ '' Sensitive individuals should reduce prolonged exertion'',
         utf8 0x1F4A7 @ '' Stay hydrated if exercising outdoors'']),
      (''Unhealthy for Sensitive Groups'',
        [utf8 0x1F6AB @ '' Sensitive groups should reduce outdoor activities'',
         utf8 0x1F475 @ '' Older adults and children should limit exertion'',
         utf8 0x1F3E0 @ '' Consider moving activities indoors'']),
      (''Unhealthy'',
        [utf8 0x1F6A8 @ '' Everyone should reduce outdoor activities'',
         utf8 0x1F4AA @ '' Avoid strenuous exercise outdoors'',
         utf8 0x1F637 @ '' Wear masks if going outside'']),
      (''Very Unhealthy'',
        [utf8 0x1F198 @ '' Avoid all outdoor activities'',
         utf8 0x1F3E0 @ '' Stay indoors with windows closed'',
         utf8 0x1F4A8 @ '' Use air purifiers'']),
      (''Hazardous'',
        [utf8 0x1F525 @ '' HEALTH EMERGENCY - Stay indoors'',
         utf8 0x1F198 @ '' Cancel all outdoor activities'',
         utf8 0x1F3E5 @ '' Seek medical help if symptoms appear''])]"

text \<open>\<^verbatim>\<open>recommendations.get(category, [])\<close>: a missing key gives the empty list.\<close>

definition get_recommendations :: "string \<Rightarrow> string list" where
  "get_recommendations category =
     (case map_of recommendations category of
        None \<Rightarrow> []
      | Some recs \<Rightarrow> recs)"

subsection \<open>The artifacts and load_model (lines 47 to 59)\<close>

text \<open>
  The two pickled artifacts are opaque. An unpickled object is known to the script only
  through one expression each: \<^verbatim>\<open>scaler.transform(input_data)\<close> and
  \<^verbatim>\<open>model.predict(input_scaled)[0]\<close>. An object is therefore modelled by what
  that expression does on a two-dimensional array: \<open>Inr\<close> its value, or \<open>Inl msg\<close>
  when evaluating it raises an exception \<open>e\<close> of class \<^verbatim>\<open>Exception\<close> with
  \<^verbatim>\<open>str(e) = msg\<close> (an object without the method raises AttributeError there).
  Exceptions outside \<^verbatim>\<open>Exception\<close> (interpreter exit, keyboard interrupt) are not
  modelled. The Python value \<^verbatim>\<open>None\<close> is \<open>None\<close>.
\<close>

type_synonym scaler_obj = "real list list \<Rightarrow> string + real list list"
type_synonym model_obj = "real list list \<Rightarrow> string + real"

text \<open>
  What the script does to the outside, in order: the calls into the artifacts and the
  Streamlit calls of the prediction block. Text built from a number by an f-string is kept
  structured (the number beside the literal parts), since the text of a float is not
  modelled.
\<close>

datatype effect =
    Scaler_transform "real list list"
  | Model_predict "real list list"
  | St_error string
  | St_markdown_result string real string string
  | St_subheader string
  | St_write string
  | St_expander string
  | St_metric string real string

text \<open>
  The two files as the process finds them: \<open>Inl msg\<close> when \<^verbatim>\<open>open\<close> or
  \<^verbatim>\<open>pickle.load\<close> raises, \<open>Inr obj\<close> the unpickled object.
\<close>

record files =
  model_pkl :: "string + model_obj option"
  scaler_pkl :: "string + scaler_obj option"

text \<open>
  The bare \<^verbatim>\<open>except:\<close> catches whatever either read raises, reports it through
  \<^verbatim>\<open>st.error\<close> and returns \<^verbatim>\<open>(None, None)\<close>. The result is paired with the
  Streamlit calls made.
\<close>

definition load_model :: "files \<Rightarrow> (model_obj option \<times> scaler_obj option) \<times> effect list" where
  "load_model fs =
     (case model_pkl fs of
        Inl e \<Rightarrow>
          ((None, None),
           [St_error (utf8 0x274C @ '' Model files not found! Please upload model.pkl and scaler.pkl'')])
      | Inr model \<Rightarrow>
          (case scaler_pkl fs of
             Inl e \<Rightarrow>
               ((None, None),
                [St_error (utf8 0x274C @ '' Model files not found! Please upload model.pkl and scaler.pkl'')])
           | Inr scaler \<Rightarrow> ((model, scaler), [])))"

text \<open>
  The state of the running script: the two module globals and the effects so far.
\<close>

record app =
  model :: "model_obj option"
  scaler :: "scaler_obj option"
  effects :: "effect list"

text \<open>Line 59, \<^verbatim>\<open>model, scaler = load_model()\<close>, run at startup.\<close>

definition startup :: "files \<Rightarrow> app" where
  "startup fs =
     (case load_model fs of
        ((m, sc), out) \<Rightarrow> \<lparr>model = m, scaler = sc, effects = out\<rparr>)"

subsection \<open>The prediction block of main (lines 173 to 212)\<close>

text \<open>
  The form widgets of \<^verbatim>\<open>main\<close> yield the five readings and whether the button was
  pressed.
\<close>

record form =
  submitted :: bool
  pm25 :: real
  pm10 :: real
  no2 :: real
  co :: real
  o3 :: real

definition emit :: "effect list \<Rightarrow> app \<Rightarrow> app" where
  "emit es s = s\<lparr>effects := effects s @ es\<rparr>"

text \<open>
  \<^verbatim>\<open>main\<close> from line 173 on. The header, the sidebar, the form layout, the
  real-time analysis of the inputs and the About section (lines 114 to 171 and 214 to 233)
  only call Streamlit with constants and the form values; they read no global and are
  left out of the record of effects, as are the layout-only \<^verbatim>\<open>st.columns\<close> calls.
  \<^verbatim>\<open>main\<close> does not assign the globals. With \<^verbatim>\<open>scaler\<close> being \<^verbatim>\<open>None\<close>,
  \<^verbatim>\<open>scaler.transform\<close> raises AttributeError before any call is made.
\<close>

definition main :: "form \<Rightarrow> app \<Rightarrow> app" where
  "main f s =
     (case (submitted f, model s) of
        (True, Some m) \<Rightarrow>
          (let input_data = [[pm25 f, pm10 f, no2 f, co f, o3 f]] in
           case scaler s of
             None \<Rightarrow>
               emit [St_error (''Prediction error: '' @ [CHR 0x27] @ ''NoneType'' @ [CHR 0x27]
                       @ '' object has no attribute '' @ [CHR 0x27] @ ''transform'' @ [CHR 0x27])] s
           | Some sc \<Rightarrow>
               (case sc input_data of
                  Inl e \<Rightarrow>
                    emit [Scaler_transform input_data, St_error (''Prediction error: '' @ e)] s
                | Inr input_scaled \<Rightarrow>
                    (case m input_scaled of
                       Inl e \<Rightarrow>
                         emit [Scaler_transform input_data, Model_predict input_scaled,
                               St_error (''Prediction error: '' @ e)] s
                     | Inr prediction \<Rightarrow>
                         (case get_aqi_category prediction of
                            (category, css_class, description) \<Rightarrow>
                              emit ([Scaler_transform input_data, Model_predict input_scaled,
                                     St_markdown_result css_class prediction category description,
                                     St_subheader (utf8 0x1F4A1 @ '' Health Recommendations'')]
                                    @ map (\<lambda>rec. St_write (utf8 0x2022 @ '' '' @ rec))
                                        (get_recommendations category)
                                    @ [St_expander (utf8 0x1F4CB @ '' Input Summary''),
                                       St_metric ''PM2.5'' (pm25 f) ('' '' @ utf8 0xB5 @ ''g/m'' @ utf8 0xB3),
                                       St_metric ''PM10'' (pm10 f) ('' '' @ utf8 0xB5 @ ''g/m'' @ utf8 0xB3),
                                       St_metric (''NO'' @ utf8 0x2082) (no2 f)
                                         ('' '' @ utf8 0xB5 @ ''g/m'' @ utf8 0xB3),
                                       St_metric ''CO'' (co f) ('' mg/m'' @ utf8 0xB3),
                                       St_metric (''O'' @ utf8 0x2083) (o3 f)
                                         ('' '' @ utf8 0xB5 @ ''g/m'' @ utf8 0xB3)]) s))))
      | (True, None) \<Rightarrow>
          emit [St_error ''Model not loaded. Please check if model files are uploaded.''] s
      | (False, _) \<Rightarrow> s)"

text \<open>What one run of \<^verbatim>\<open>main\<close> adds to the effects so far.\<close>

definition emitted :: "form \<Rightarrow> app \<Rightarrow> effect list" where
  "emitted f s = drop (length (effects s)) (effects (main f s))"

fun is_scoring :: "effect \<Rightarrow> bool" where
  "is_scoring (Scaler_transform x) = True"
| "is_scoring (Model_predict x) = True"
| "is_scoring e = False"

subsection \<open>The two function bodies as syntax\<close>

text \<open>
  Whether a function depends on the state of the program or changes it is a property of
  its text, so the bodies of \<^verbatim>\<open>get_aqi_category\<close> and
  \<^verbatim>\<open>get_recommendations\<close> are also given as syntax trees, with an evaluator for
  the fragment of Python they are written in. In that fragment a name is looked up among
  the locals of the call and then among the module's globals, and a statement can call a
  function for its effect (as \<^verbatim>\<open>load_model\<close> and \<^verbatim>\<open>main\<close> call
  \<^verbatim>\<open>st.error\<close>), which is recorded in the state. An \<^verbatim>\<open>elif\<close> is an
  \<^verbatim>\<open>if\<close> in the else branch; a statement carries the statements after it.
  The one name assigned in a body, \<^verbatim>\<open>recommendations\<close>, is assigned before it is
  read, so reading a local before its assignment does not arise.
\<close>

datatype py_value =
    VNone
  | VBool bool
  | VNum real
  | VStr string
  | VTuple "py_value list"
  | VList "py_value list"
  | VDict "(py_value \<times> py_value) list"

text \<open>
  \<open>Not_modelled\<close> stands for an operation on values for which the fragment gives no
  meaning (comparing two strings, calling \<^verbatim>\<open>get\<close> on something that is no
  dictionary).
\<close>

datatype py_error = NameError string | TypeError | Not_modelled

datatype expr =
    Name string
  | Number real
  | String string
  | Le expr expr
  | Tuple_display "expr list"
  | List_display "expr list"
  | Dict_display "(expr \<times> expr) list"
  | Get expr expr expr

datatype stmt =
    Return expr
  | If expr stmt stmt
  | Assign string expr stmt
  | Call string "expr list" stmt

text \<open>The state a function body runs in: the module's globals and the calls made so far.\<close>

record py_state =
  globals :: "string \<rightharpoonup> py_value"
  calls :: "(string \<times> py_value list) list"

text \<open>Evaluation from left to right, stopping at the first exception.\<close>

fun collect :: "('x + 'v) list \<Rightarrow> 'x + 'v list" where
  "collect [] = Inr []"
| "collect (Inl e # rs) = Inl e"
| "collect (Inr v # rs) =
     (case collect rs of Inl e \<Rightarrow> Inl e | Inr vs \<Rightarrow> Inr (v # vs))"

fun collect_items :: "(('x + 'v) \<times> ('x + 'v)) list \<Rightarrow> 'x + ('v \<times> 'v) list" where
  "collect_items [] = Inr []"
| "collect_items ((Inl e, v) # rs) = Inl e"
| "collect_items ((Inr k, Inl e) # rs) = Inl e"
| "collect_items ((Inr k, Inr v) # rs) =
     (case collect_items rs of Inl e \<Rightarrow> Inl e | Inr kvs \<Rightarrow> Inr ((k, v) # kvs))"

text \<open>Storing under a key that is present replaces its value, as in a dictionary.\<close>

fun dict_set ::
  "py_value \<Rightarrow> py_value \<Rightarrow> (py_value \<times> py_value) list \<Rightarrow> (py_value \<times> py_value) list" where
  "dict_set k v [] = [(k, v)]"
| "dict_set k v ((k', v') # d) =
     (if k = k' then (k, v) # d else (k', v') # dict_set k v d)"

fun hashable :: "py_value \<Rightarrow> bool" where
  "hashable (VList vs) = False"
| "hashable (VDict d) = False"
| "hashable (VTuple vs) = list_all hashable vs"
| "hashable v = True"

fun truthy :: "py_value \<Rightarrow> bool" where
  "truthy VNone = False"
| "truthy (VBool b) = b"
| "truthy (VNum x) = (x \<noteq> 0)"
| "truthy (VStr s) = (s \<noteq> [])"
| "truthy (VTuple vs) = (vs \<noteq> [])"
| "truthy (VList vs) = (vs \<noteq> [])"
| "truthy (VDict d) = (d \<noteq> [])"

text \<open>\<^verbatim>\<open>a <= b\<close>: defined on two numbers, a TypeError between a number and a string.\<close>

fun le_value :: "py_value \<Rightarrow> py_value \<Rightarrow> py_error + py_value" where
  "le_value (VNum a) (VNum b) = Inr (VBool (a \<le> b))"
| "le_value (VNum a) (VStr b) = Inl TypeError"
| "le_value (VStr a) (VNum b) = Inl TypeError"
| "le_value a b = Inl Not_modelled"

text \<open>\<^verbatim>\<open>d.get(k, dflt)\<close> on a dictionary.\<close>

fun get_value :: "py_value \<Rightarrow> py_value \<Rightarrow> py_value \<Rightarrow> py_error + py_value" where
  "get_value (VDict d) k dflt =
     (if hashable k
      then Inr (case map_of d k of None \<Rightarrow> dflt | Some v \<Rightarrow> v)
      else Inl TypeError)"
| "get_value obj k dflt = Inl Not_modelled"

primrec eval ::
  "expr \<Rightarrow> (string \<rightharpoonup> py_value) \<Rightarrow> (string \<rightharpoonup> py_value) \<Rightarrow> py_error + py_value" where
  "eval (Name x) l g =
     (case l x of
        Some v \<Rightarrow> Inr v
      | None \<Rightarrow> (case g x of Some v \<Rightarrow> Inr v | None \<Rightarrow> Inl (NameError x)))"
| "eval (Number r) l g = Inr (VNum r)"
| "eval (String s) l g = Inr (VStr s)"
| "eval (Le a b) l g =
     (case eval a l g of
        Inl e \<Rightarrow> Inl e
      | Inr x \<Rightarrow> (case eval b l g of Inl e \<Rightarrow> Inl e | Inr y \<Rightarrow> le_value x y))"
| "eval (Tuple_display es) l g =
     (case collect (map (\<lambda>e. eval e l g) es) of
        Inl e \<Rightarrow> Inl e
      | Inr vs \<Rightarrow> Inr (VTuple vs))"
| "eval (List_display es) l g =
     (case collect (map (\<lambda>e. eval e l g) es) of
        Inl e \<Rightarrow> Inl e
      | Inr vs \<Rightarrow> Inr (VList vs))"
| "eval (Dict_display items) l g =
     (case collect_items (map (map_prod (\<lambda>k. eval k l g) (\<lambda>v. eval v l g)) items) of
        Inl e \<Rightarrow> Inl e
      | Inr kvs \<Rightarrow>
          if list_all hashable (map fst kvs)
          then Inr (VDict (foldl (\<lambda>d (k, v). dict_set k v d) [] kvs))
          else Inl TypeError)"
| "eval (Get obj k dflt) l g =
     (case eval obj l g of
        Inl e \<Rightarrow> Inl e
      | Inr d \<Rightarrow>
          (case eval k l g of
             Inl e \<Rightarrow> Inl e
           | Inr key \<Rightarrow>
               (case eval dflt l g of Inl e \<Rightarrow> Inl e | Inr v \<Rightarrow> get_value d key v)))"

text \<open>
  Running a body with the locals \<open>l\<close> in the state \<open>s\<close> gives the exception raised, or
  the value returned with the state left behind.
\<close>

primrec exec ::
  "stmt \<Rightarrow> (string \<rightharpoonup> py_value) \<Rightarrow> py_state \<Rightarrow> py_error + py_value \<times> py_state" where
  "exec (Return e) l s =
     (case eval e l (globals s) of Inl err \<Rightarrow> Inl err | Inr v \<Rightarrow> Inr (v, s))"
| "exec (If c a b) l s =
     (case eval c l (globals s) of
        Inl err \<Rightarrow> Inl err
      | Inr t \<Rightarrow> if truthy t then exec a l s else exec b l s)"
| "exec (Assign x e rest) l s =
     (case eval e l (globals s) of
        Inl err \<Rightarrow> Inl err
      | Inr v \<Rightarrow> exec rest (l(x \<mapsto> v)) s)"
| "exec (Call f args rest) l s =
     (case collect (map (\<lambda>e. eval e l (globals s)) args) of
        Inl err \<Rightarrow> Inl err
      | Inr vs \<Rightarrow> exec rest l (s\<lparr>calls := calls s @ [(f, vs)]\<rparr>))"

text \<open>Lines 63 to 74.\<close>

definition get_aqi_category_body :: stmt where
  "get_aqi_category_body =
     If (Le (Name ''aqi_value'') (Number 50))
       (Return (Tuple_display [String ''Good'', String ''good'',
          String (utf8 0x1F60A @ '' Air quality is satisfactory'')]))
     (If (Le (Name ''aqi_value'') (Number 100))
       (Return (Tuple_display [String ''Moderate'', String ''moderate'',
          String (utf8 0x1F610 @ '' Air quality is acceptable'')]))
     (If (Le (Name ''aqi_value'') (Number 150))
       (Return (Tuple_display [String ''Unhealthy for Sensitive Groups'',
          String ''unhealthy-sensitive'',
          String (utf8 0x1F637 @ '' Sensitive groups may be affected'')]))
     (If (Le (Name ''aqi_value'') (Number 200))
       (Return (Tuple_display [String ''Unhealthy'', String ''unhealthy'',
          String (utf8 0x1F912 @ '' Everyone may be affected'')]))
     (If (Le (Name ''aqi_value'') (Number 300))
       (Return (Tuple_display [String ''Very Unhealthy'', String ''very-unhealthy'',
          String (utf8 0x1F6A8 @ '' Health alert'')]))
       (Return (Tuple_display [String ''Hazardous'', String ''hazardous'',
          String (utf8 0x1F480 @ '' Health warning'')]))))))"

text \<open>Lines 78 to 110.\<close>

definition get_recommendations_body :: stmt where
  "get_recommendations_body =
     Assign ''recommendations''
       (Dict_display
           [(String ''Good'',
             List_display
               [String (utf8 0x2705 @ '' Perfect for outdoor activities and exercise''),
                String (utf8 0x2705 @ '' No restrictions needed''),
                String (utf8 0x2705 @ '' Great day for children to play outside'')]),
            (String ''Moderate'',
             List_display
               [String (utf8 0x26A0 @ utf8 0xFE0F @ '' Generally acceptable for most people''),
                String (utf8 0x26A0 @ utf8 0xFE0F @ '' Sensitive individuals should reduce prolonged exertion''),
                String (utf8 0x1F4A7 @ '' Stay hydrated if exercising outdoors'')]),
            (String ''Unhealthy for Sensitive Groups'',
             List_display
               [String (utf8 0x1F6AB @ '' Sensitive groups should reduce outdoor activities''),
                String (utf8 0x1F475 @ '' Older adults and children should limit exertion''),
                String (utf8 0x1F3E0 @ '' Consider moving activities indoors'')]),
            (String ''Unhealthy'',
             List_display
               [String (utf8 0x1F6A8 @ '' Everyone should reduce outdoor activities''),
                String (utf8 0x1F4AA @ '' Avoid strenuous exercise outdoors''),
                String (utf8 0x1F637 @ '' Wear masks if going outside'')]),
            (String ''Very Unhealthy'',
             List_display
               [String (utf8 0x1F198 @ '' Avoid all outdoor activities''),
                String (utf8 0x1F3E0 @ '' Stay indoors with windows closed''),
                String (utf8 0x1F4A8 @ '' Use air purifiers'')]),
            (String ''Hazardous'',
             List_display
               [String (utf8 0x1F525 @ '' HEALTH EMERGENCY - Stay indoors''),
                String (utf8 0x1F198 @ '' Cancel all outdoor activities''),
                String (utf8 0x1F3E5 @ '' Seek medical help if symptoms appear'')])])
       (Return (Get (Name ''recommendations'') (Name ''category'') (List_display [])))"

text \<open>The triple of the functional model as the tuple the body returns.\<close>

fun triple_value :: "string \<times> string \<times> string \<Rightarrow> py_value" where
  "triple_value (a, b, c) = VTuple [VStr a, VStr b, VStr c]"

subsection \<open>The specification's vocabulary\<close>

text \<open>
  The specification speaks of an enumerated category with six variants, each with an
  interval of the real line, of the five boundaries tried in ascending order, and of an
  order of severity. These definitions follow its words; the theorems below compare the
  code with them.
\<close>

datatype aqi_category =
  Good | Moderate | Unhealthy_Sensitive | Unhealthy | Very_Unhealthy | Hazardous

fun label :: "aqi_category \<Rightarrow> string" where
  "label Good = ''Good''"
| "label Moderate = ''Moderate''"
| "label Unhealthy_Sensitive = ''Unhealthy for Sensitive Groups''"
| "label Unhealthy = ''Unhealthy''"
| "label Very_Unhealthy = ''Very Unhealthy''"
| "label Hazardous = ''Hazardous''"

fun spec_interval :: "aqi_category \<Rightarrow> real \<Rightarrow> bool" where
  "spec_interval Good v = (0 \<le> v \<and> v \<le> 50)"
| "spec_interval Moderate v = (50 < v \<and> v \<le> 100)"
| "spec_interval Unhealthy_Sensitive v = (100 < v \<and> v \<le> 150)"
| "spec_interval Unhealthy v = (150 < v \<and> v \<le> 200)"
| "spec_interval Very_Unhealthy v = (200 < v \<and> v \<le> 300)"
| "spec_interval Hazardous v = (300 < v)"

definition category_labels :: "string list" where
  "category_labels =
     [''Good'', ''Moderate'', ''Unhealthy for Sensitive Groups'', ''Unhealthy'',
      ''Very Unhealthy'', ''Hazardous'']"

text \<open>The position of a label in the order of severity (6 for any other string).\<close>

definition severity :: "string \<Rightarrow> nat" where
  "severity c = length (takeWhile (\<lambda>l. l \<noteq> c) category_labels)"

definition spec_boundaries :: "(real \<times> string) list" where
  "spec_boundaries =
     [(50, ''Good''), (100, ''Moderate''), (150, ''Unhealthy for Sensitive Groups''),
      (200, ''Unhealthy''), (300, ''Very Unhealthy'')]"

fun first_not_exceeded :: "(real \<times> string) list \<Rightarrow> real \<Rightarrow> string" where
  "first_not_exceeded [] v = ''Hazardous''"
| "first_not_exceeded ((bound, c) # bs) v =
     (if v \<le> bound then c else first_not_exceeded bs v)"

text \<open>The lines written by \<^verbatim>\<open>st.write\<close> among a list of effects, in order.\<close>

fun written :: "effect list \<Rightarrow> string list" where
  "written [] = []"
| "written (St_write line # es) = line # written es"
| "written (e # es) = written es"

section \<open>Auxiliary facts\<close>

lemma char_eq_char_of: "c = char_of (n::nat) \<longleftrightarrow> of_char c = n mod 256"
  by (metis char_of_char of_char_of)

lemma severity_get_aqi_category:
  "severity (fst (get_aqi_category v)) =
     (if v \<le> 50 then 0 else if v \<le> 100 then 1 else if v \<le> 150 then 2
      else if v \<le> 200 then 3 else if v \<le> 300 then 4 else 5)"
  by (simp add: get_aqi_category_def severity_def category_labels_def)

subsection \<open>Running the two bodies\<close>

text \<open>
  The evaluator does tell a body that reads a global or makes a call from one that does
  neither: this one returns what the state holds and leaves a call behind.
\<close>

lemma exec_reads_and_calls:
  "exec (Call ''st.error'' [Name ''model''] (Return (Name ''model''))) Map.empty
        \<lparr>globals = [''model'' \<mapsto> v], calls = cs\<rparr>
     = Inr (v, \<lparr>globals = [''model'' \<mapsto> v], calls = cs @ [(''st.error'', [v])]\<rparr>)"
  by simp

lemma exec_get_aqi_category_body:
  "exec get_aqi_category_body [''aqi_value'' \<mapsto> VNum v] s
     = Inr (triple_value (get_aqi_category v), s)"
  by (simp add: get_aqi_category_body_def get_aqi_category_def)

lemma exec_get_recommendations_body:
  "exec get_recommendations_body [''category'' \<mapsto> VStr c] s
     = Inr (VList (map VStr (get_recommendations c)), s)"
  by (simp add: get_recommendations_body_def get_recommendations_def recommendations_def)

subsection \<open>What main leaves alone\<close>

lemma main_model: "model (main f s) = model s"
  by (simp add: main_def emit_def Let_def
      split: option.splits sum.splits prod.splits bool.splits)



subsection \<open>What main emits, branch by branch\<close>

lemma emitted_not_submitted: "\<not> submitted f \<Longrightarrow> emitted f s = []"
  by (simp add: emitted_def main_def)

lemma emitted_no_model:
  "submitted f \<Longrightarrow> model s = None \<Longrightarrow>
     emitted f s = [St_error ''Model not loaded. Please check if model files are uploaded.'']"
  by (simp add: emitted_def main_def emit_def)

lemma emitted_no_scaler:
  "submitted f \<Longrightarrow> model s = Some m \<Longrightarrow> scaler s = None \<Longrightarrow>
     emitted f s =
       [St_error (''Prediction error: '' @ [CHR 0x27] @ ''NoneType'' @ [CHR 0x27]
          @ '' object has no attribute '' @ [CHR 0x27] @ ''transform'' @ [CHR 0x27])]"
  by (simp add: emitted_def main_def emit_def)

lemma emitted_transform_raises:
  "submitted f \<Longrightarrow> model s = Some m \<Longrightarrow> scaler s = Some sc \<Longrightarrow>
   sc [[pm25 f, pm10 f, no2 f, co f, o3 f]] = Inl e \<Longrightarrow>
     emitted f s =
       [Scaler_transform [[pm25 f, pm10 f, no2 f, co f, o3 f]],
        St_error (''Prediction error: '' @ e)]"
  by (simp add: emitted_def main_def emit_def)

lemma emitted_predict_raises:
  "submitted f \<Longrightarrow> model s = Some m \<Longrightarrow> scaler s = Some sc \<Longrightarrow>
   sc [[pm25 f, pm10 f, no2 f, co f, o3 f]] = Inr x \<Longrightarrow> m x = Inl e \<Longrightarrow>
     emitted f s =
       [Scaler_transform [[pm25 f, pm10 f, no2 f, co f, o3 f]], Model_predict x,
        St_error (''Prediction error: '' @ e)]"
  by (simp add: emitted_def main_def emit_def)

lemma emitted_scored:
  "submitted f \<Longrightarrow> model s = Some m \<Longrightarrow> scaler s = Some sc \<Longrightarrow>
   sc [[pm25 f, pm10 f, no2 f, co f, o3 f]] = Inr x \<Longrightarrow> m x = Inr y \<Longrightarrow>
   get_aqi_category y = (cat, css, descr) \<Longrightarrow>
     emitted f s =
       [Scaler_transform [[pm25 f, pm10 f, no2 f, co f, o3 f]], Model_predict x,
        St_markdown_result css y cat descr,
        St_subheader (utf8 0x1F4A1 @ '' Health Recommendations'')]
       @ map (\<lambda>rec. St_write (utf8 0x2022 @ '' '' @ rec)) (get_recommendations cat)
       @ [St_expander (utf8 0x1F4CB @ '' Input Summary''),
          St_metric ''PM2.5'' (pm25 f) ('' '' @ utf8 0xB5 @ ''g/m'' @ utf8 0xB3),
          St_metric ''PM10'' (pm10 f) ('' '' @ utf8 0xB5 @ ''g/m'' @ utf8 0xB3),
          St_metric (''NO'' @ utf8 0x2082) (no2 f) ('' '' @ utf8 0xB5 @ ''g/m'' @ utf8 0xB3),
          St_metric ''CO'' (co f) ('' mg/m'' @ utf8 0xB3),
          St_metric (''O'' @ utf8 0x2083) (o3 f) ('' '' @ utf8 0xB5 @ ''g/m'' @ utf8 0xB3)]"
  by (simp add: emitted_def main_def emit_def)

lemma written_map_St_write:
  "written (map (\<lambda>r. St_write (g r)) rs @ es) = map g rs @ written es"
  by (induction rs) simp_all

text \<open>
  A result block among the effects of a run can only come from the last branch, and there
  it is the classification of the prediction, followed by that category's recommendations.
\<close>

lemma result_shown:
  assumes "St_markdown_result css y cat descr \<in> set (emitted f s)"
  shows "get_aqi_category y = (cat, css, descr)
     \<and> written (emitted f s) =
         map (\<lambda>rec. utf8 0x2022 @ '' '' @ rec) (get_recommendations cat)"
proof (cases "submitted f")
  case False
  with assms show ?thesis by (simp add: emitted_not_submitted)
next
  case sub: True
  show ?thesis
  proof (cases "model s")
    case None
    with sub assms show ?thesis by (simp add: emitted_no_model)
  next
    case (Some m)
    note m = this
    show ?thesis
    proof (cases "scaler s")
      case None
      with sub m assms show ?thesis by (simp add: emitted_no_scaler)
    next
      case (Some sc)
      note sc = this
      show ?thesis
      proof (cases "sc [[pm25 f, pm10 f, no2 f, co f, o3 f]]")
        case (Inl e)
        with sub m sc assms show ?thesis by (simp add: emitted_transform_raises)
      next
        case (Inr x)
        note x = this
        show ?thesis
        proof (cases "m x")
          case (Inl e)
          with sub m sc x assms show ?thesis by (simp add: emitted_predict_raises)
        next
          case (Inr y')
          obtain cat' css' descr' where triple: "get_aqi_category y' = (cat', css', descr')"
            by (cases "get_aqi_category y'") auto
          note em = emitted_scored [OF sub m sc x Inr triple]
          from assms have "css = css' \<and> y = y' \<and> cat = cat' \<and> descr = descr'"
            unfolding em by auto
          with triple show ?thesis
            unfolding em by (simp add: written_map_St_write)
        qed
      qed
    qed
  qed
qed




section \<open>The claims\<close>

subsection \<open>Classification\<close>

text \<open>
  C1. Every AQI value in the closed interval from 0 to 50 is classified Good, and each of
  the boundary values 50, 100, 150, 200 and 300 falls into the lower of its two adjacent
  categories: the upper bound of each interval is closed.
\<close>

theorem get_aqi_category_good_and_boundaries:
  "(\<forall>v. 0 \<le> v \<and> v \<le> 50 \<longrightarrow> fst (get_aqi_category v) = ''Good'')
   \<and> fst (get_aqi_category 50) = ''Good''
   \<and> fst (get_aqi_category 100) = ''Moderate''
   \<and> fst (get_aqi_category 150) = ''Unhealthy for Sensitive Groups''
   \<and> fst (get_aqi_category 200) = ''Unhealthy''
   \<and> fst (get_aqi_category 300) = ''Very Unhealthy''"
  by (simp add: get_aqi_category_def)

theorem get_aqi_category_good_and_boundaries_witness:
  "(0::real) \<le> 37.5 \<and> (37.5::real) \<le> 50 \<and> fst (get_aqi_category 37.5) = ''Good''"
  using get_aqi_category_good_and_boundaries by simp

text \<open>
  C2. The boundaries 50, 100, 150, 200, 300 are tried in ascending order and the label
  returned is that of the first boundary the value does not exceed; every value above 300
  is Hazardous. In particular 50.1 is Moderate and 301 is Hazardous.
\<close>

theorem get_aqi_category_first_not_exceeded:
  "sorted (map fst spec_boundaries)
   \<and> fst (get_aqi_category v) = first_not_exceeded spec_boundaries v
   \<and> (300 < v \<longrightarrow> fst (get_aqi_category v) = ''Hazardous'')
   \<and> fst (get_aqi_category 50.1) = ''Moderate''
   \<and> fst (get_aqi_category 301) = ''Hazardous''"
  by (simp add: get_aqi_category_def spec_boundaries_def)

theorem get_aqi_category_first_not_exceeded_witness:
  "(300::real) < 1000 \<and> fst (get_aqi_category 1000) = ''Hazardous''
   \<and> first_not_exceeded spec_boundaries 1000 = ''Hazardous''"
  using get_aqi_category_first_not_exceeded [of 1000] by (simp add: spec_boundaries_def)

text \<open>
  C3. The six intervals of the specification are contiguous and exhaustive over the
  non-negative reals: a non-negative AQI value lies in exactly one of them, and the label
  returned by \<^verbatim>\<open>get_aqi_category\<close> is the label of that one.
\<close>

theorem intervals_partition_nonnegative:
  "0 \<le> v \<Longrightarrow>
     (\<exists>!c. spec_interval c v)
     \<and> (\<forall>c. spec_interval c v \<longrightarrow> fst (get_aqi_category v) = label c)"
proof (intro conjI allI impI)
  assume nonneg: "0 \<le> v"
  then consider "v \<le> 50" | "50 < v" "v \<le> 100" | "100 < v" "v \<le> 150"
    | "150 < v" "v \<le> 200" | "200 < v" "v \<le> 300" | "300 < v"
    by linarith
  then show "\<exists>!c. spec_interval c v"
  proof cases
    case 1
    with nonneg show ?thesis
      by (intro ex1I[of _ Good]) (auto elim: spec_interval.elims)
  next
    case 2
    then show ?thesis
      by (intro ex1I[of _ Moderate]) (auto elim: spec_interval.elims)
  next
    case 3
    then show ?thesis
      by (intro ex1I[of _ Unhealthy_Sensitive]) (auto elim: spec_interval.elims)
  next
    case 4
    then show ?thesis
      by (intro ex1I[of _ Unhealthy]) (auto elim: spec_interval.elims)
  next
    case 5
    then show ?thesis
      by (intro ex1I[of _ Very_Unhealthy]) (auto elim: spec_interval.elims)
  next
    case 6
    then show ?thesis
      by (intro ex1I[of _ Hazardous]) (auto elim: spec_interval.elims)
  qed
next
  fix c
  assume "spec_interval c v"
  then show "fst (get_aqi_category v) = label c"
    by (cases c) (simp_all add: get_aqi_category_def)
qed

theorem intervals_partition_nonnegative_witness:
  "(0::real) \<le> 175 \<and> spec_interval Unhealthy 175
   \<and> fst (get_aqi_category 175) = label Unhealthy"
proof -
  have nonneg: "(0::real) \<le> 175" by simp
  have inside: "spec_interval Unhealthy 175" by simp
  from intervals_partition_nonnegative [OF nonneg] nonneg inside show ?thesis by blast
qed

text \<open>
  C10. Classification is monotone in severity over all reals: a value that is not larger
  gets a category that is not more severe, in the order Good, Moderate, Unhealthy for
  Sensitive Groups, Unhealthy, Very Unhealthy, Hazardous.
\<close>

theorem get_aqi_category_monotone:
  "v1 \<le> v2 \<Longrightarrow>
     severity (fst (get_aqi_category v1)) \<le> severity (fst (get_aqi_category v2))"
  unfolding severity_get_aqi_category by (simp split: if_splits)

theorem get_aqi_category_monotone_witness:
  "(120::real) \<le> 250
   \<and> severity (fst (get_aqi_category 120)) \<le> severity (fst (get_aqi_category 250))"
  using get_aqi_category_monotone [of 120 250] by simp

text \<open>
  C8, as stated, says that a negative AQI falls through to Hazardous. It does not: -1
  passes the first comparison.
\<close>

theorem negative_aqi_not_hazardous:
  "(-1::real) < 0 \<and> fst (get_aqi_category (-1)) = ''Good''
   \<and> fst (get_aqi_category (-1)) \<noteq> ''Hazardous''"
  by (simp add: get_aqi_category_def)

text \<open>
  C8, amended. The value falls through to Hazardous exactly when it fails all five
  comparisons, that is when it is above 300. A negative value satisfies the first
  comparison and gets the same triple as 0, with label Good.
\<close>

theorem hazardous_iff_above_300:
  "(fst (get_aqi_category v) = ''Hazardous'' \<longleftrightarrow> 300 < v)
   \<and> (v < 0 \<longrightarrow> get_aqi_category v = get_aqi_category 0
                \<and> fst (get_aqi_category v) = ''Good'')"
  by (simp add: get_aqi_category_def)

theorem hazardous_iff_above_300_witness:
  "(-20::real) < 0 \<and> get_aqi_category (-20) = get_aqi_category 0
   \<and> fst (get_aqi_category (-20)) = ''Good''"
proof -
  have negative: "(-20::real) < 0" by simp
  with hazardous_iff_above_300 [of "-20"] show ?thesis by blast
qed

subsection \<open>Recommendations\<close>

text \<open>
  C4. For each of the six labels \<^verbatim>\<open>get_recommendations\<close> returns that label's
  list of the dictionary: exactly three recommendation strings, in the order of the
  source, none of them empty. Each label is returned by \<^verbatim>\<open>get_aqi_category\<close> for
  some value, always beside a non-empty severity tag and a non-empty description without a
  line break, and the label determines both.
\<close>

theorem advisory_table_total:
  "(\<forall>c \<in> set category_labels.
       get_recommendations c \<noteq> [] \<and> length (get_recommendations c) = 3)
   \<and> (\<forall>c \<in> set category_labels. \<forall>r \<in> set (get_recommendations c). r \<noteq> [])
   \<and> get_recommendations ''Good'' =
          [utf8 0x2705 @ '' Perfect for outdoor activities and exercise'',
           utf8 0x2705 @ '' No restrictions needed'',
           utf8 0x2705 @ '' Great day for children to play outside'']
   \<and> get_recommendations ''Moderate'' =
          [utf8 0x26A0 @ utf8 0xFE0F @ '' Generally acceptable for most people'',
           utf8 0x26A0 @ utf8 0xFE0F @ '' Sensitive individuals should reduce prolonged exertion'',
           utf8 0x1F4A7 @ '' Stay hydrated if exercising outdoors'']
   \<and> get_recommendations ''Unhealthy for Sensitive Groups'' =
          [utf8 0x1F6AB @ '' Sensitive groups should reduce outdoor activities'',
           utf8 0x1F475 @ '' Older adults and children should limit exertion'',
           utf8 0x1F3E0 @ '' Consider moving activities indoors'']
   \<and> get_recommendations ''Unhealthy'' =
          [utf8 0x1F6A8 @ '' Everyone should reduce outdoor activities'',
           utf8 0x1F4AA @ '' Avoid strenuous exercise outdoors'',
           utf8 0x1F637 @ '' Wear masks if going outside'']
   \<and> get_recommendations ''Very Unhealthy'' =
          [utf8 0x1F198 @ '' Avoid all outdoor activities'',
           utf8 0x1F3E0 @ '' Stay indoors with windows closed'',
           utf8 0x1F4A8 @ '' Use air purifiers'']
   \<and> get_recommendations ''Hazardous'' =
          [utf8 0x1F525 @ '' HEALTH EMERGENCY - Stay indoors'',
           utf8 0x1F198 @ '' Cancel all outdoor activities'',
           utf8 0x1F3E5 @ '' Seek medical help if symptoms appear'']
   \<and> map (\<lambda>v. fst (get_aqi_category v)) [0, 75, 125, 175, 250, 400] = category_labels
   \<and> (\<forall>v. case get_aqi_category v of
           (c, tag, description) \<Rightarrow>
             c \<in> set category_labels \<and> tag \<noteq> [] \<and> description \<noteq> []
             \<and> CHR 0x0A \<notin> set description)
   \<and> (\<forall>v w. fst (get_aqi_category v) = fst (get_aqi_category w) \<longrightarrow>
              get_aqi_category v = get_aqi_category w)"
proof (intro conjI)
  show "\<forall>c \<in> set category_labels.
          get_recommendations c \<noteq> [] \<and> length (get_recommendations c) = 3"
    by (simp add: get_recommendations_def recommendations_def category_labels_def)
  show "\<forall>c \<in> set category_labels. \<forall>r \<in> set (get_recommendations c). r \<noteq> []"
    by (simp add: get_recommendations_def recommendations_def category_labels_def)
  show "get_recommendations ''Good'' =
          [utf8 0x2705 @ '' Perfect for outdoor activities and exercise'',
           utf8 0x2705 @ '' No restrictions needed'',
           utf8 0x2705 @ '' Great day for children to play outside'']"
    by (simp add: get_recommendations_def recommendations_def)
  show "get_recommendations ''Moderate'' =
          [utf8 0x26A0 @ utf8 0xFE0F @ '' Generally acceptable for most people'',
           utf8 0x26A0 @ utf8 0xFE0F @ '' Sensitive individuals should reduce prolonged exertion'',
           utf8 0x1F4A7 @ '' Stay hydrated if exercising outdoors'']"
    by (simp add: get_recommendations_def recommendations_def)
  show "get_recommendations ''Unhealthy for Sensitive Groups'' =
          [utf8 0x1F6AB @ '' Sensitive groups should reduce outdoor activities'',
           utf8 0x1F475 @ '' Older adults and children should limit exertion'',
           utf8 0x1F3E0 @ '' Consider moving activities indoors'']"
    by (simp add: get_recommendations_def recommendations_def)
  show "get_recommendations ''Unhealthy'' =
          [utf8 0x1F6A8 @ '' Everyone should reduce outdoor activities'',
           utf8 0x1F4AA @ '' Avoid strenuous exercise outdoors'',
           utf8 0x1F637 @ '' Wear masks if going outside'']"
    by (simp add: get_recommendations_def recommendations_def)
  show "get_recommendations ''Very Unhealthy'' =
          [utf8 0x1F198 @ '' Avoid all outdoor activities'',
           utf8 0x1F3E0 @ '' Stay indoors with windows closed'',
           utf8 0x1F4A8 @ '' Use air purifiers'']"
    by (simp add: get_recommendations_def recommendations_def)
  show "get_recommendations ''Hazardous'' =
          [utf8 0x1F525 @ '' HEALTH EMERGENCY - Stay indoors'',
           utf8 0x1F198 @ '' Cancel all outdoor activities'',
           utf8 0x1F3E5 @ '' Seek medical help if symptoms appear'']"
    by (simp add: get_recommendations_def recommendations_def)
  show "map (\<lambda>v. fst (get_aqi_category v)) [0, 75, 125, 175, 250, 400] = category_labels"
    by (simp add: get_aqi_category_def category_labels_def)
  show "\<forall>v. case get_aqi_category v of
          (c, tag, description) \<Rightarrow>
            c \<in> set category_labels \<and> tag \<noteq> [] \<and> description \<noteq> []
            \<and> CHR 0x0A \<notin> set description"
    by (simp add: get_aqi_category_def category_labels_def utf8_def char_eq_char_of)
  show "\<forall>v w. fst (get_aqi_category v) = fst (get_aqi_category w) \<longrightarrow>
          get_aqi_category v = get_aqi_category w"
    by (simp add: get_aqi_category_def)
qed

theorem advisory_table_total_witness:
  "''Very Unhealthy'' \<in> set category_labels
   \<and> length (get_recommendations ''Very Unhealthy'') = 3
   \<and> utf8 0x1F4A8 @ '' Use air purifiers'' \<in> set (get_recommendations ''Very Unhealthy'')
   \<and> utf8 0x1F4A8 @ '' Use air purifiers'' \<noteq> []
   \<and> fst (get_aqi_category 250) = fst (get_aqi_category 201)
   \<and> get_aqi_category 250 = get_aqi_category 201"
proof -
  have label: "''Very Unhealthy'' \<in> set category_labels"
    by (simp add: category_labels_def)
  have same: "fst (get_aqi_category 250) = fst (get_aqi_category 201)"
    by (simp add: get_aqi_category_def)
  have entry: "utf8 0x1F4A8 @ '' Use air purifiers'' \<in> set (get_recommendations ''Very Unhealthy'')"
    by (simp add: get_recommendations_def recommendations_def)
  from advisory_table_total label same entry show ?thesis by blast
qed

text \<open>
  C9. For a string that is none of the six labels \<^verbatim>\<open>get_recommendations\<close> returns
  the empty list.
\<close>

theorem get_recommendations_unknown_empty:
  "c \<notin> set category_labels \<Longrightarrow> get_recommendations c = []"
  by (simp add: get_recommendations_def recommendations_def category_labels_def)

theorem get_recommendations_unknown_empty_witness:
  "''good'' \<notin> set category_labels \<and> get_recommendations ''good'' = []"
  using get_recommendations_unknown_empty [of "''good''"] by (simp add: category_labels_def)

text \<open>
  C5. Run in any state of the program, the body of \<^verbatim>\<open>get_aqi_category\<close> returns
  for the argument \<open>v\<close> the triple of the functional model, and the body of
  \<^verbatim>\<open>get_recommendations\<close> returns for the argument \<open>c\<close> the list of the functional
  model: no exception, the same result in any two states \<open>st\<close> and \<open>st'\<close> (whatever
  their globals and the calls made before), and the state left as it was, so no global is
  read and no call is made. Nor does the state of the application enter where
  \<^verbatim>\<open>main\<close> calls them: whatever the state and the form, a result block shown for a
  prediction carries the triple of that prediction, and the lines written are the
  recommendations of its label.
\<close>

theorem classify_advise_deterministic:
  "exec get_aqi_category_body [''aqi_value'' \<mapsto> VNum v] st
     = Inr (triple_value (get_aqi_category v), st)
   \<and> exec get_aqi_category_body [''aqi_value'' \<mapsto> VNum v] st'
     = Inr (triple_value (get_aqi_category v), st')
   \<and> exec get_recommendations_body [''category'' \<mapsto> VStr c] st
     = Inr (VList (map VStr (get_recommendations c)), st)
   \<and> exec get_recommendations_body [''category'' \<mapsto> VStr c] st'
     = Inr (VList (map VStr (get_recommendations c)), st')
   \<and> (St_markdown_result css y cat descr \<in> set (emitted f s) \<longrightarrow>
        get_aqi_category y = (cat, css, descr)
        \<and> written (emitted f s) =
            map (\<lambda>rec. utf8 0x2022 @ '' '' @ rec) (get_recommendations cat))"
proof (intro conjI impI)
  show "exec get_aqi_category_body [''aqi_value'' \<mapsto> VNum v] st
          = Inr (triple_value (get_aqi_category v), st)"
    by (rule exec_get_aqi_category_body)
  show "exec get_aqi_category_body [''aqi_value'' \<mapsto> VNum v] st'
          = Inr (triple_value (get_aqi_category v), st')"
    by (rule exec_get_aqi_category_body)
  show "exec get_recommendations_body [''category'' \<mapsto> VStr c] st
          = Inr (VList (map VStr (get_recommendations c)), st)"
    by (rule exec_get_recommendations_body)
  show "exec get_recommendations_body [''category'' \<mapsto> VStr c] st'
          = Inr (VList (map VStr (get_recommendations c)), st')"
    by (rule exec_get_recommendations_body)
next
  assume shown: "St_markdown_result css y cat descr \<in> set (emitted f s)"
  from result_shown [OF shown] show "get_aqi_category y = (cat, css, descr)" ..
  from result_shown [OF shown]
  show "written (emitted f s) =
          map (\<lambda>rec. utf8 0x2022 @ '' '' @ rec) (get_recommendations cat)" ..
qed

theorem classify_advise_deterministic_witness:
  "St_markdown_result ''good'' 42 ''Good'' (utf8 0x1F60A @ '' Air quality is satisfactory'')
     \<in> set (emitted \<lparr>submitted = True, pm25 = 25, pm10 = 50, no2 = 20, co = 1, o3 = 60\<rparr>
              \<lparr>model = Some (\<lambda>x. Inr 42), scaler = Some (\<lambda>x. Inr x), effects = []\<rparr>)
   \<and> written (emitted \<lparr>submitted = True, pm25 = 25, pm10 = 50, no2 = 20, co = 1, o3 = 60\<rparr>
                \<lparr>model = Some (\<lambda>x. Inr 42), scaler = Some (\<lambda>x. Inr x), effects = []\<rparr>)
       = map (\<lambda>rec. utf8 0x2022 @ '' '' @ rec) (get_recommendations ''Good'')
   \<and> exec get_aqi_category_body [''aqi_value'' \<mapsto> VNum 42]
        \<lparr>globals = [''model'' \<mapsto> VNum 1], calls = [(''st.error'', [VStr ''x''])]\<rparr>
       = Inr (VTuple [VStr ''Good'', VStr ''good'',
                      VStr (utf8 0x1F60A @ '' Air quality is satisfactory'')],
              \<lparr>globals = [''model'' \<mapsto> VNum 1], calls = [(''st.error'', [VStr ''x''])]\<rparr>)"
proof -
  have shown:
    "St_markdown_result ''good'' 42 ''Good'' (utf8 0x1F60A @ '' Air quality is satisfactory'')
       \<in> set (emitted \<lparr>submitted = True, pm25 = 25, pm10 = 50, no2 = 20, co = 1, o3 = 60\<rparr>
                \<lparr>model = Some (\<lambda>x. Inr 42), scaler = Some (\<lambda>x. Inr x), effects = []\<rparr>)"
    by (simp add: emitted_def main_def emit_def get_aqi_category_def Let_def)
  have triple: "triple_value (get_aqi_category 42)
      = VTuple [VStr ''Good'', VStr ''good'',
                VStr (utf8 0x1F60A @ '' Air quality is satisfactory'')]"
    by (simp add: get_aqi_category_def)
  from classify_advise_deterministic
         [where v = 42
            and st = "\<lparr>globals = [''model'' \<mapsto> VNum 1], calls = [(''st.error'', [VStr ''x''])]\<rparr>"
            and css = "''good''" and y = 42 and cat = "''Good''"
            and descr = "utf8 0x1F60A @ '' Air quality is satisfactory''"
            and f = "\<lparr>submitted = True, pm25 = 25, pm10 = 50, no2 = 20, co = 1, o3 = 60\<rparr>"
            and s = "\<lparr>model = Some (\<lambda>x. Inr 42), scaler = Some (\<lambda>x. Inr x), effects = []\<rparr>"]
       shown triple
  show ?thesis by simp
qed

subsection \<open>Failures\<close>

text \<open>
  C6. If either pickle file cannot be read at startup, both globals are None and the
  failure is reported once. Whenever the model is None, a submitted prediction is refused:
  the run shows the message that the model is not loaded, calls neither artifact, and
  ends normally.
\<close>

theorem model_unavailable_refused:
  "(isl (model_pkl fs) \<or> isl (scaler_pkl fs) \<longrightarrow>
      model (startup fs) = None \<and> scaler (startup fs) = None
      \<and> effects (startup fs) =
          [St_error (utf8 0x274C
             @ '' Model files not found! Please upload model.pkl and scaler.pkl'')]
      \<and> (\<forall>f. submitted f \<longrightarrow>
            emitted f (startup fs) =
              [St_error ''Model not loaded. Please check if model files are uploaded.'']))
   \<and> (model s = None \<and> submitted f \<longrightarrow>
        emitted f s = [St_error ''Model not loaded. Please check if model files are uploaded.'']
        \<and> filter is_scoring (emitted f s) = []
        \<and> model (main f s) = None)"
proof (intro conjI impI)
  assume unreadable: "isl (model_pkl fs) \<or> isl (scaler_pkl fs)"
  then have loaded: "load_model fs =
      ((None, None),
       [St_error (utf8 0x274C
          @ '' Model files not found! Please upload model.pkl and scaler.pkl'')])"
    by (auto simp add: load_model_def isl_def split: sum.splits)
  then show none: "model (startup fs) = None" and "scaler (startup fs) = None"
    and "effects (startup fs) =
          [St_error (utf8 0x274C
             @ '' Model files not found! Please upload model.pkl and scaler.pkl'')]"
    by (simp_all add: startup_def)
  from none show "\<forall>f. submitted f \<longrightarrow>
      emitted f (startup fs) =
        [St_error ''Model not loaded. Please check if model files are uploaded.'']"
    by (simp add: emitted_no_model)
next
  assume a: "model s = None \<and> submitted f"
  then show em: "emitted f s =
      [St_error ''Model not loaded. Please check if model files are uploaded.'']"
    by (simp add: emitted_no_model)
  then show "filter is_scoring (emitted f s) = []" by simp
  from a show "model (main f s) = None" by (simp add: main_model)
qed

theorem model_unavailable_refused_witness:
  "isl (model_pkl \<lparr>model_pkl = Inl ''No such file or directory'', scaler_pkl = Inr (Some (\<lambda>x. Inr x))\<rparr>)
   \<and> model (startup \<lparr>model_pkl = Inl ''No such file or directory'', scaler_pkl = Inr (Some (\<lambda>x. Inr x))\<rparr>) = None
   \<and> submitted \<lparr>submitted = True, pm25 = 25, pm10 = 50, no2 = 20, co = 1, o3 = 60\<rparr>
   \<and> emitted \<lparr>submitted = True, pm25 = 25, pm10 = 50, no2 = 20, co = 1, o3 = 60\<rparr> (startup \<lparr>model_pkl = Inl ''No such file or directory'', scaler_pkl = Inr (Some (\<lambda>x. Inr x))\<rparr>)
       = [St_error ''Model not loaded. Please check if model files are uploaded.'']"
  using model_unavailable_refused [of "\<lparr>model_pkl = Inl ''No such file or directory'', scaler_pkl = Inr (Some (\<lambda>x. Inr x))\<rparr>" "startup \<lparr>model_pkl = Inl ''No such file or directory'', scaler_pkl = Inr (Some (\<lambda>x. Inr x))\<rparr>" "\<lparr>submitted = True, pm25 = 25, pm10 = 50, no2 = 20, co = 1, o3 = 60\<rparr>"]
  by simp



end
